theory Spec2Isabelle
  imports Complex_Main
begin

section \<open>Python values, dictionaries and exceptions\<close>

text \<open>
  The audited program is Python. A page record is a Python dict with string keys; it is
  modelled as an association list in insertion order, with the values the program stores
  in it. Reading a key that is missing raises \<open>KeyError\<close>. An exception is a value:
  every function that can raise returns \<open>exn + 'a\<close>, with \<open>Inl\<close> for the exception.
\<close>

datatype exn =
    KeyError string
  | TypeError string
  | UnboundLocalError string
  | ValueError string
  | RequestException string
  | HTTPError int

datatype pyval = PyNone | PyInt int | PyStr string | PyDict "(string \<times> pyval) list"

type_synonym pydict = "(string \<times> pyval) list"

definition getitem :: "pydict \<Rightarrow> string \<Rightarrow> exn + pyval" where
  "getitem d k = (case map_of d k of None \<Rightarrow> Inl (KeyError k) | Some v \<Rightarrow> Inr v)"

definition bindE :: "exn + 'a \<Rightarrow> ('a \<Rightarrow> exn + 'b) \<Rightarrow> exn + 'b" where
  "bindE x f = (case x of Inl e \<Rightarrow> Inl e | Inr v \<Rightarrow> f v)"

definition startswith :: "string \<Rightarrow> string \<Rightarrow> bool" where
  "startswith s p = (take (length p) s = p)"

section \<open>Python strings\<close>

text \<open>
  A Python string is a list of characters; the characters of the model are the code
  points below 256. \<open>py_isspace\<close> is \<open>str.isspace\<close> on one character, \<open>py_lower\<close> is
  \<open>str.lower\<close>, \<open>py_strip\<close> is \<open>str.strip()\<close>, \<open>split_on\<close> is \<open>str.split(sep)\<close> for a
  separator of one character, and \<open>after_colon line\<close> is \<open>line.split(':', 1)[1]\<close> for a
  line that holds a colon. \<open>str_int\<close> is \<open>str\<close> on an integer and \<open>str_exn\<close> is \<open>str\<close> on
  an exception (of an \<open>HTTPError\<close> only the status code is kept).
\<close>

definition py_isspace :: "char \<Rightarrow> bool" where
  "py_isspace c = (let n = (of_char c :: nat) in
     (9 \<le> n \<and> n \<le> 13) \<or> (28 \<le> n \<and> n \<le> 32) \<or> n = 133 \<or> n = 160)"

definition py_lower_char :: "char \<Rightarrow> char" where
  "py_lower_char c = (let n = (of_char c :: nat) in
     if (65 \<le> n \<and> n \<le> 90) \<or> (192 \<le> n \<and> n \<le> 222 \<and> n \<noteq> 215)
     then char_of (n + 32) else c)"

definition py_lower :: "string \<Rightarrow> string" where
  "py_lower s = map py_lower_char s"

definition py_strip :: "string \<Rightarrow> string" where
  "py_strip s = rev (dropWhile py_isspace (rev (dropWhile py_isspace s)))"

fun split_on :: "char \<Rightarrow> string \<Rightarrow> string list" where
  "split_on sep [] = [[]]"
| "split_on sep (c # cs) =
     (if c = sep then [] # split_on sep cs
      else (case split_on sep cs of [] \<Rightarrow> [[c]] | x # xs \<Rightarrow> (c # x) # xs))"

definition after_colon :: "string \<Rightarrow> string" where
  "after_colon line = drop 1 (dropWhile (\<lambda>c. c \<noteq> CHR '':'') line)"

fun str_nat :: "nat \<Rightarrow> string" where
  "str_nat n = (if n < 10 then [char_of (48 + n)] else str_nat (n div 10) @ [char_of (48 + n mod 10)])"

definition str_int :: "int \<Rightarrow> string" where
  "str_int i = (if i < 0 then ''-'' @ str_nat (nat (- i)) else str_nat (nat i))"

fun str_exn :: "exn \<Rightarrow> string" where
  "str_exn (KeyError k) = [CHR 0x27] @ k @ [CHR 0x27]"
| "str_exn (TypeError m) = m"
| "str_exn (UnboundLocalError m) = m"
| "str_exn (ValueError m) = m"
| "str_exn (RequestException m) = m"
| "str_exn (HTTPError n) = str_int n @ '' Error''"

fun contains :: "string \<Rightarrow> string \<Rightarrow> bool" where
  "contains [] p = (p = [])"
| "contains (c # cs) p = (startswith (c # cs) p \<or> contains cs p)"

text \<open>\<open>str.split()\<close>: the maximal runs of characters that are not whitespace.\<close>

fun split_ws :: "string \<Rightarrow> string \<Rightarrow> string list" where
  "split_ws cur [] = (if cur = [] then [] else [cur])"
| "split_ws cur (c # cs) =
     (if py_isspace c then (if cur = [] then split_ws [] cs else cur # split_ws [] cs)
      else split_ws (cur @ [c]) cs)"

definition py_split :: "string \<Rightarrow> string list" where
  "py_split s = split_ws [] s"

section \<open>The document tree of the HTML parser\<close>

text \<open>
  BeautifulSoup is an external library. A parsed document is a forest of nodes: a text
  node, or an element with its tag name, its attributes and its children. The parser
  itself is a parameter of the model (\<open>html_parser\<close> below); the queries the program
  makes on the parsed document are functions on the tree.
\<close>

datatype node = Text string | Element string "(string \<times> string) list" "node list"

fun descendants :: "node \<Rightarrow> node list" where
  "descendants (Text s) = []"
| "descendants (Element t a cs) = Element t a cs # concat (map descendants cs)"

definition all_elements :: "node list \<Rightarrow> node list" where
  "all_elements soup = concat (map descendants soup)"

fun tag_of :: "node \<Rightarrow> string" where
  "tag_of (Text s) = []"
| "tag_of (Element t a cs) = t"

fun attrs_of :: "node \<Rightarrow> (string \<times> string) list" where
  "attrs_of (Text s) = []"
| "attrs_of (Element t a cs) = a"

text \<open>\<open>soup.find_all(tags)\<close>: the elements with one of the tag names, in document order.\<close>

definition find_all :: "string list \<Rightarrow> node list \<Rightarrow> node list" where
  "find_all tags soup = filter (\<lambda>n. tag_of n \<in> set tags) (all_elements soup)"

text \<open>\<open>tag.get(name)\<close>: the attribute's value, or None.\<close>

definition get_attr :: "node \<Rightarrow> string \<Rightarrow> string option" where
  "get_attr n name = map_of (attrs_of n) name"

text \<open>
  \<open>tag.get_text()\<close> joins the strings below a tag; \<open>get_text(strip=True)\<close> strips each
  of them first and leaves out the empty ones.
\<close>

fun texts :: "node \<Rightarrow> string list" where
  "texts (Text s) = [s]"
| "texts (Element t a cs) = concat (map texts cs)"

definition get_text :: "node \<Rightarrow> string" where
  "get_text n = concat (texts n)"

definition get_text_strip :: "node \<Rightarrow> string" where
  "get_text_strip n = concat (filter (\<lambda>s. s \<noteq> []) (map py_strip (texts n)))"

section \<open>The outside world\<close>

text \<open>
  Everything the program reaches through a library is a parameter: the HTTP transport
  (\<open>requests.get\<close>, which returns a status code and a body, or raises), the HTML parser,
  and the URL functions of \<open>urllib.parse\<close>. A URL is requested at most once during a
  crawl, so a transport that is a function of the URL loses no generality.

  The libraries reject some strings: \<open>parser_error\<close> gives the exception that the HTML
  parser raises on a markup, if it raises, and \<open>urlparse_error\<close> the exception that
  \<open>urlparse\<close> raises on a URL (a \<open>ValueError\<close> for a malformed host), if it
  raises. The scoring functions, which call both outside any \<open>try\<close> statement, are
  modelled with these exceptions.

  The content analyses of llm_scraper.py and content_analysis.py read a parsed document
  and compute text statistics with further libraries (textstat, json). The score reads
  three numbers of their results and nothing else, so what they compute from a parsed
  document is a parameter too: \<open>scrape_body\<close> is the body of the \<open>try\<close> statement
  of \<open>scrape_as_llm\<close> after parsing (of the dict it builds, the keys that
  \<open>score_page\<close> reads for the checks are kept), \<open>readability_of\<close> and
  \<open>structured_data_of\<close> are \<open>analyze_content_readability\<close> and
  \<open>analyze_structured_data\<close> after parsing (the latter returns the schema count and
  the richness score). How each of these functions handles exceptions is part of the
  model. \<open>scrape_website_with_openai\<close> calls the text-generation service inside a
  \<open>try\<close> statement and never raises; of its result the fields below are read.
\<close>

record llm_content =
  headings :: "(int \<times> string) list"
  main_content :: string
  llm_richness_score :: int

record openai_analysis =
  success :: bool
  website_specific_recommendations :: "string list"

record world =
  requests_get :: "string \<Rightarrow> exn + (int \<times> string)"
  html_parser :: "string \<Rightarrow> node list"
  urljoin :: "string \<Rightarrow> string \<Rightarrow> string"
  urldefrag :: "string \<Rightarrow> string"
  netloc :: "string \<Rightarrow> string"
  scheme :: "string \<Rightarrow> string"
  urlparse_other :: "pyval \<Rightarrow> exn + string"
  parser_error :: "string \<Rightarrow> exn option"
  urlparse_error :: "string \<Rightarrow> exn option"
  scrape_body :: "node list \<Rightarrow> pyval \<Rightarrow> exn + llm_content"
  readability_of :: "node list \<Rightarrow> int"
  structured_data_of :: "node list \<Rightarrow> int \<times> int"
  scrape_website_with_openai :: "pydict list \<Rightarrow> openai_analysis"

text \<open>\<open>response.raise_for_status()\<close> raises for a 4xx or 5xx status code.\<close>

definition raise_for_status :: "int \<times> string \<Rightarrow> exn + unit" where
  "raise_for_status r = (if 400 \<le> fst r \<and> fst r < 600 then Inl (HTTPError (fst r)) else Inr ())"

section \<open>The crawler (crawler.py)\<close>

record crawl_state =
  visited :: "string set"
  to_visit :: "(string \<times> int) list"
  pages_data :: "pydict list"
  requested :: "string list"

text \<open>
  \<open>requested\<close> is the trace of the crawler's network effect: the URLs passed to
  \<open>requests.get\<close>, in order. The other three fields are the local variables of
  \<open>crawl_site\<close>.
\<close>

definition normalize_start :: "string \<Rightarrow> string" where
  "normalize_start start_url =
     (if \<not> (startswith start_url ''http://'' \<or> startswith start_url ''https://'')
      then ''https://'' @ start_url else start_url)"

definition crawl_init :: "string \<Rightarrow> crawl_state" where
  "crawl_init start_url =
     \<lparr>visited = {}, to_visit = [(normalize_start start_url, 0)], pages_data = [], requested = []\<rparr>"

text \<open>The body of \<open>try\<close> up to the append: the request and \<open>raise_for_status\<close>.\<close>

definition fetch :: "world \<Rightarrow> string \<Rightarrow> exn + (int \<times> string)" where
  "fetch w u =
     (case requests_get w u of
        Inl e \<Rightarrow> Inl e
      | Inr r \<Rightarrow> (case raise_for_status r of Inl e \<Rightarrow> Inl e | Inr _ \<Rightarrow> Inr r))"

definition make_page :: "string \<Rightarrow> int \<times> string \<Rightarrow> int \<Rightarrow> pydict" where
  "make_page normalized_url r depth =
     [(''url'', PyStr normalized_url), (''html'', PyStr (snd r)),
      (''status_code'', PyInt (fst r)), (''depth'', PyInt depth)]"

text \<open>
  The inner \<open>for link in soup.find_all('a', href=True)\<close>: each href is resolved against
  the page's URL, its fragment is removed, and it is appended to the queue when its
  netloc is the page's and it is not yet visited. \<open>visited\<close> does not change inside the
  loop. The HTML parser and the URL functions are taken to return for every string; an
  exception of theirs on malformed input is not modelled.
\<close>

definition hrefs :: "node list \<Rightarrow> string list" where
  "hrefs soup = concat (map (\<lambda>n. case get_attr n ''href'' of None \<Rightarrow> [] | Some h \<Rightarrow> [h])
                          (find_all [''a''] soup))"

definition discovered :: "world \<Rightarrow> string set \<Rightarrow> string \<Rightarrow> string \<Rightarrow> int \<Rightarrow> (string \<times> int) list" where
  "discovered w vis normalized_url html depth =
     map (\<lambda>u. (u, depth + 1))
       (filter (\<lambda>u. netloc w u = netloc w normalized_url \<and> u \<notin> vis)
          (map (\<lambda>href. urldefrag w (urljoin w normalized_url href))
             (hrefs (html_parser w html))))"

text \<open>One iteration of the \<open>while\<close> loop, for a non-empty queue.\<close>

definition crawl_step :: "world \<Rightarrow> int \<Rightarrow> crawl_state \<Rightarrow> crawl_state" where
  "crawl_step w max_depth st =
     (case to_visit st of
        [] \<Rightarrow> st
      | (url, depth) # rest \<Rightarrow>
          let normalized_url = urldefrag w url in
          if normalized_url \<in> visited st \<or> depth > max_depth
          then st\<lparr>to_visit := rest\<rparr>
          else
            let st1 = st\<lparr>to_visit := rest,
                         visited := insert normalized_url (visited st),
                         requested := requested st @ [normalized_url]\<rparr>
            in case fetch w normalized_url of
                 Inl e \<Rightarrow> st1
               | Inr r \<Rightarrow>
                   let st2 = st1\<lparr>pages_data := pages_data st1 @ [make_page normalized_url r depth]\<rparr>
                   in if depth < max_depth
                      then st2\<lparr>to_visit := to_visit st2 @
                                 discovered w (visited st2) normalized_url (snd r) depth\<rparr>
                      else st2)"

definition crawl_cond :: "crawl_state \<Rightarrow> bool" where
  "crawl_cond st = (to_visit st \<noteq> [] \<and> length (pages_data st) < 50)"

lemma crawl_step_measure:
  assumes "crawl_cond st"
  shows "(length (pages_data (crawl_step w md st)) = Suc (length (pages_data st)))
       \<or> (pages_data (crawl_step w md st) = pages_data st
          \<and> length (to_visit (crawl_step w md st)) < length (to_visit st))"
  using assms
  by (auto simp: crawl_cond_def crawl_step_def Let_def split: list.splits sum.splits)

function crawl_loop :: "world \<Rightarrow> int \<Rightarrow> crawl_state \<Rightarrow> crawl_state" where
  "crawl_loop w max_depth st =
     (if crawl_cond st then crawl_loop w max_depth (crawl_step w max_depth st) else st)"
  by pat_completeness auto
termination
proof (relation "measures [\<lambda>(w, md, st). 50 - length (pages_data st),
                           \<lambda>(w, md, st). length (to_visit st)]")
  show "wf (measures [\<lambda>(w, md, st). 50 - length (pages_data st),
                      \<lambda>(w, md, st). length (to_visit st)])"
    by simp
next
  fix w :: world and max_depth :: int and st :: crawl_state
  assume c: "crawl_cond st"
  from crawl_step_measure [OF c, of w max_depth] c
  show "((w, max_depth, crawl_step w max_depth st), (w, max_depth, st))
        \<in> measures [\<lambda>(w, md, st). 50 - length (pages_data st),
                     \<lambda>(w, md, st). length (to_visit st)]"
    by (auto simp: crawl_cond_def)
qed

declare crawl_loop.simps [simp del]

definition crawl_site :: "world \<Rightarrow> string \<Rightarrow> int \<Rightarrow> pydict list" where
  "crawl_site w start_url max_depth = pages_data (crawl_loop w max_depth (crawl_init start_url))"

section \<open>An example site\<close>

text \<open>
  A small instance of the outside world, used to run the definitions on concrete inputs.
  Its URL functions agree with \<open>urllib.parse\<close> on the URLs of the example:
  \<open>urldefrag\<close> cuts a URL at its first \<open>#\<close>, the netloc is what stands between
  \<open>://\<close> and the next \<open>/\<close>, \<open>?\<close> or \<open>#\<close>, and \<open>urljoin\<close> keeps an absolute
  reference and resolves a reference that starts with \<open>/\<close> against the base's origin.
  The home page links to \<open>/page#section\<close>, \<open>/page\<close>, a page on another host and
  \<open>/missing\<close>, which answers 404; robots.txt disallows \<open>/admin\<close>; every other URL
  is unreachable. The libraries accept every string of the example. The content analyses
  return what the program computes on the two pages of the example: a richness of 13 for
  the page with its one heading and of 0 for the home page, readability 0 for texts of
  fewer than 100 characters, and no structured data.
\<close>

definition ex_urldefrag :: "string \<Rightarrow> string" where
  "ex_urldefrag u = takeWhile (\<lambda>c. c \<noteq> CHR ''#'') u"

definition ex_scheme :: "string \<Rightarrow> string" where
  "ex_scheme u = takeWhile (\<lambda>c. c \<noteq> CHR '':'') u"

fun after_scheme :: "string \<Rightarrow> string" where
  "after_scheme (a # b # c # r) =
     (if a = CHR '':'' \<and> b = CHR ''/'' \<and> c = CHR ''/'' then r else after_scheme (b # c # r))"
| "after_scheme r = []"

definition ex_netloc :: "string \<Rightarrow> string" where
  "ex_netloc u = takeWhile (\<lambda>c. c \<noteq> CHR ''/'' \<and> c \<noteq> CHR ''?'' \<and> c \<noteq> CHR ''#'') (after_scheme u)"

definition ex_urljoin :: "string \<Rightarrow> string \<Rightarrow> string" where
  "ex_urljoin base href =
     (if startswith href ''http://'' \<or> startswith href ''https://'' then href
      else ex_scheme base @ ''://'' @ ex_netloc base @ href)"

definition ex_home_html :: string where
  "ex_home_html = ''<a href=/page#section>A</a><a href=/page>B</a><a href=https://other.org/x>C</a><a href=/missing>D</a>''"

definition ex_page_html :: string where
  "ex_page_html = ''<h1>Page</h1>''"

definition ex_requests_get :: "string \<Rightarrow> exn + (int \<times> string)" where
  "ex_requests_get u =
     (if u = ''https://example.com'' then Inr (200, ex_home_html)
      else if u = ''https://example.com/page'' then Inr (200, ex_page_html)
      else if u = ''https://example.com/missing'' then Inr (404, ''Not Found'')
      else if u = ''https://example.com/robots.txt''
      then Inr (200, ''User-agent: *'' @ [CHR 0x0A] @ ''Disallow: /admin'')
      else Inl (RequestException ''unreachable''))"

definition ex_html_parser :: "string \<Rightarrow> node list" where
  "ex_html_parser h =
     (if h = ex_home_html then
        [Element ''a'' [(''href'', ''/page#section'')] [Text ''A''],
         Element ''a'' [(''href'', ''/page'')] [Text ''B''],
         Element ''a'' [(''href'', ''https://other.org/x'')] [Text ''C''],
         Element ''a'' [(''href'', ''/missing'')] [Text ''D'']]
      else if h = ex_page_html then [Element ''h1'' [] [Text ''Page'']]
      else [Text h])"

definition ex_world :: world where
  "ex_world = \<lparr>requests_get = ex_requests_get, html_parser = ex_html_parser,
                urljoin = ex_urljoin, urldefrag = ex_urldefrag,
                netloc = ex_netloc, scheme = ex_scheme,
                urlparse_other = (\<lambda>v. Inl (TypeError ''url is not a string'')),
                parser_error = (\<lambda>h. None),
                urlparse_error = (\<lambda>u. None),
                scrape_body = (\<lambda>soup url. Inr \<lparr>headings = map (\<lambda>n. (1, get_text n)) (find_all [''h1''] soup),
                                                  main_content = [],
                                                  llm_richness_score =
                                                    (if length (find_all [''h1''] soup) = 1 then 13 else 0)\<rparr>),
                readability_of = (\<lambda>soup. 0),
                structured_data_of = (\<lambda>soup. (0, 0)),
                scrape_website_with_openai =
                  (\<lambda>pages. \<lparr>success = False, website_specific_recommendations = []\<rparr>)\<rparr>"

section \<open>Invariants of the crawl loop\<close>


lemma crawl_step_cases [case_names empty skip fail ok]:
  obtains
    "to_visit st = []" "crawl_step w md st = st"
  | url depth rest where "to_visit st = (url, depth) # rest"
      "urldefrag w url \<in> visited st \<or> depth > md"
      "crawl_step w md st = st\<lparr>to_visit := rest\<rparr>"
  | url depth rest e where "to_visit st = (url, depth) # rest"
      "urldefrag w url \<notin> visited st" "depth \<le> md"
      "fetch w (urldefrag w url) = Inl e"
      "crawl_step w md st =
         st\<lparr>to_visit := rest, visited := insert (urldefrag w url) (visited st),
            requested := requested st @ [urldefrag w url]\<rparr>"
  | url depth rest r where "to_visit st = (url, depth) # rest"
      "urldefrag w url \<notin> visited st" "depth \<le> md"
      "fetch w (urldefrag w url) = Inr r"
      "crawl_step w md st =
         st\<lparr>to_visit := rest @ (if depth < md
                 then discovered w (insert (urldefrag w url) (visited st)) (urldefrag w url) (snd r) depth
                 else []),
            visited := insert (urldefrag w url) (visited st),
            requested := requested st @ [urldefrag w url],
            pages_data := pages_data st @ [make_page (urldefrag w url) r depth]\<rparr>"
proof (cases "to_visit st")
  case Nil
  then show ?thesis using that(1) by (simp add: crawl_step_def)
next
  case (Cons a rest)
  obtain url depth where a: "a = (url, depth)" by (cases a)
  show ?thesis
  proof (cases "urldefrag w url \<in> visited st \<or> depth > md")
    case True
    then show ?thesis using that(2) [of url depth rest] Cons a
      by (simp add: crawl_step_def)
  next
    case False
    show ?thesis
    proof (cases "fetch w (urldefrag w url)")
      case (Inl e)
      then show ?thesis using that(3) [of url depth rest e] Cons a False
        by (simp add: crawl_step_def Let_def)
    next
      case (Inr r)
      then show ?thesis using that(4) [of url depth rest r] Cons a False
        by (simp add: crawl_step_def Let_def)
    qed
  qed
qed

lemma crawl_loop_invariant:
  "P st \<Longrightarrow> (\<forall>s. P s \<longrightarrow> P (crawl_step w md s)) \<Longrightarrow> P (crawl_loop w md st)"
proof (induction w md st rule: crawl_loop.induct)
  case (1 w md st)
  show ?case
  proof (cases "crawl_cond st")
    case True
    from 1(2,3) have "P (crawl_step w md st)" by blast
    with 1(1,3) True show ?thesis by (subst crawl_loop.simps) simp
  next
    case False
    with 1(2) show ?thesis by (subst crawl_loop.simps) simp
  qed
qed

lemma crawl_funpow_invariant:
  "P st \<Longrightarrow> (\<forall>s. P s \<longrightarrow> P (crawl_step w md s)) \<Longrightarrow> P ((crawl_step w md ^^ n) st)"
  by (induction n) auto

definition url_is :: "pydict \<Rightarrow> string \<Rightarrow> bool" where
  "url_is p u = (getitem p ''url'' = Inr (PyStr u))"

lemma url_is_make_page [simp]: "url_is (make_page u r d) v = (u = v)"
  by (simp add: url_is_def make_page_def getitem_def)

definition same_host :: "world \<Rightarrow> string \<Rightarrow> crawl_state \<Rightarrow> bool" where
  "same_host w h st =
     ((\<forall>(u, d) \<in> set (to_visit st). netloc w (urldefrag w u) = h)
    \<and> (\<forall>u \<in> visited st. netloc w u = h)
    \<and> (\<forall>u \<in> set (requested st). netloc w u = h)
    \<and> (\<forall>p \<in> set (pages_data st). \<exists>u. url_is p u \<and> netloc w u = h))"

lemma same_host_step:
  assumes idem: "\<And>u. urldefrag w (urldefrag w u) = urldefrag w u"
    and inv: "same_host w h st"
  shows "same_host w h (crawl_step w md st)"
proof (cases rule: crawl_step_cases [where st = st and w = w and md = md])
  case empty
  with inv show ?thesis by simp
next
  case (skip url depth rest)
  with inv show ?thesis by (auto simp: same_host_def)
next
  case (fail url depth rest e)
  with inv show ?thesis by (auto simp: same_host_def)
next
  case (ok url depth rest r)
  from inv ok(1) have h: "netloc w (urldefrag w url) = h"
    by (auto simp: same_host_def)
  have disc: "netloc w (urldefrag w u) = h"
    if "(u, d) \<in> set (discovered w vis (urldefrag w url) html depth)" for u d vis html
    using that h by (auto simp: discovered_def idem)
  have q: "\<forall>(u, d) \<in> set (to_visit (crawl_step w md st)). netloc w (urldefrag w u) = h"
    using inv ok(1) disc unfolding ok(5) by (auto simp: same_host_def)
  have v: "\<forall>u \<in> visited (crawl_step w md st). netloc w u = h"
    using inv h unfolding ok(5) by (auto simp: same_host_def)
  have r: "\<forall>u \<in> set (requested (crawl_step w md st)). netloc w u = h"
    using inv h unfolding ok(5) by (auto simp: same_host_def)
  have p: "\<forall>p \<in> set (pages_data (crawl_step w md st)). \<exists>u. url_is p u \<and> netloc w u = h"
    using inv h unfolding ok(5) by (auto simp: same_host_def)
  from q v r p show ?thesis by (simp add: same_host_def)
qed

definition dedup :: "crawl_state \<Rightarrow> bool" where
  "dedup st =
     (distinct (requested st) \<and> set (requested st) = visited st
    \<and> distinct (map (\<lambda>p. getitem p ''url'') (pages_data st))
    \<and> (\<forall>p \<in> set (pages_data st). \<exists>u \<in> visited st. url_is p u))"

lemma dedup_step:
  assumes inv: "dedup st"
  shows "dedup (crawl_step w md st)"
proof (cases rule: crawl_step_cases [where st = st and w = w and md = md])
  case empty
  with inv show ?thesis by simp
next
  case (skip url depth rest)
  with inv show ?thesis by (auto simp: dedup_def)
next
  case (fail url depth rest e)
  with inv show ?thesis by (auto simp: dedup_def)
next
  case (ok url depth rest r)
  have new: "getitem (make_page (urldefrag w url) r depth) ''url'' = Inr (PyStr (urldefrag w url))"
    by (simp add: make_page_def getitem_def)
  from inv ok(2) have "Inr (PyStr (urldefrag w url)) \<notin> (\<lambda>p. getitem p ''url'') ` set (pages_data st)"
    by (auto simp: dedup_def url_is_def)
  with inv ok(2) new show ?thesis
    unfolding ok(5) by (auto simp: dedup_def)
qed

definition fetched_ok :: "world \<Rightarrow> crawl_state \<Rightarrow> bool" where
  "fetched_ok w st = (\<forall>p \<in> set (pages_data st). \<exists>u r d. fetch w u = Inr r \<and> p = make_page u r d)"

lemma fetched_ok_step:
  assumes inv: "fetched_ok w st"
  shows "fetched_ok w (crawl_step w md st)"
proof (cases rule: crawl_step_cases [where st = st and w = w and md = md])
  case empty
  with inv show ?thesis by simp
next
  case (skip url depth rest)
  with inv show ?thesis by (simp add: fetched_ok_def)
next
  case (fail url depth rest e)
  with inv show ?thesis by (simp add: fetched_ok_def)
next
  case (ok url depth rest r)
  have "\<exists>u r' d. fetch w u = Inr r' \<and> make_page (urldefrag w url) r depth = make_page u r' d"
    using ok(4) by blast
  with inv show ?thesis
    unfolding ok(5) fetched_ok_def by (simp del: split_paired_Ex)
qed


section \<open>The page cap\<close>

lemma crawl_step_cap:
  "length (pages_data st) \<le> 50 \<Longrightarrow> crawl_cond st \<Longrightarrow>
   length (pages_data (crawl_step w md st)) \<le> 50"
  using crawl_step_measure [of st w md] by (auto simp: crawl_cond_def)

lemma crawl_loop_cap:
  "length (pages_data st) \<le> 50 \<Longrightarrow> length (pages_data (crawl_loop w md st)) \<le> 50"
proof (induction w md st rule: crawl_loop.induct)
  case (1 w md st)
  show ?case
  proof (cases "crawl_cond st")
    case True
    with 1 show ?thesis
      by (subst crawl_loop.simps) (simp add: crawl_step_cap)
  next
    case False
    with 1 show ?thesis
      by (subst crawl_loop.simps) simp
  qed
qed

lemma crawl_loop_exit: "\<not> crawl_cond (crawl_loop w md st)"
proof (induction w md st rule: crawl_loop.induct)
  case (1 w md st)
  show ?case
    using 1 by (subst crawl_loop.simps) simp
qed


lemma ex_crawl_pages:
  "crawl_site ex_world ''example.com'' 1 =
     [make_page ''https://example.com'' (200, ex_home_html) 0,
      make_page ''https://example.com/page'' (200, ex_page_html) 1]"
  unfolding crawl_site_def by code_simp

lemma ex_crawl_requested:
  "requested (crawl_loop ex_world 1 (crawl_init ''example.com'')) =
     [''https://example.com'', ''https://example.com/page'', ''https://example.com/missing'']"
  by code_simp

lemma ex_crawl_queue: "to_visit (crawl_loop ex_world 1 (crawl_init ''example.com'')) = []"
  by code_simp

lemma ex_urldefrag_idem: "urldefrag ex_world (urldefrag ex_world u) = urldefrag ex_world u"
  by (simp add: ex_world_def ex_urldefrag_def)

text \<open>
  C4. For every seed URL, depth bound and outside world (so for every link graph),
  \<open>crawl_site\<close> returns at most 50 page records. The loop stops as soon as 50 pages are
  collected: a state with 50 pages is returned unchanged, and the crawl ends with an
  empty queue or with exactly 50 pages. \<open>crawl_loop\<close> is a total function, so the crawl
  always returns.
\<close>

theorem crawl_site_page_cap:
  "length (crawl_site w start_url max_depth) \<le> 50
   \<and> (to_visit (crawl_loop w max_depth (crawl_init start_url)) = []
      \<or> length (crawl_site w start_url max_depth) = 50)
   \<and> (\<forall>st. 50 \<le> length (pages_data st) \<longrightarrow> crawl_loop w max_depth st = st)"
proof -
  have cap: "length (crawl_site w start_url max_depth) \<le> 50"
    unfolding crawl_site_def by (rule crawl_loop_cap) (simp add: crawl_init_def)
  have "\<not> crawl_cond (crawl_loop w max_depth (crawl_init start_url))"
    by (rule crawl_loop_exit)
  with cap have fin: "to_visit (crawl_loop w max_depth (crawl_init start_url)) = []
      \<or> length (crawl_site w start_url max_depth) = 50"
    by (auto simp: crawl_cond_def crawl_site_def)
  have stop: "crawl_loop w max_depth st = st" if "50 \<le> length (pages_data st)" for st
    using that by (subst crawl_loop.simps) (simp add: crawl_cond_def)
  from cap fin stop show ?thesis by blast
qed

theorem crawl_site_page_cap_witness:
  "length (crawl_site ex_world ''example.com'' 1) \<le> 50
   \<and> crawl_loop ex_world 1
        \<lparr>visited = {}, to_visit = [(''https://example.com'', 0)],
         pages_data = replicate 50 [], requested = []\<rparr>
      = \<lparr>visited = {}, to_visit = [(''https://example.com'', 0)],
         pages_data = replicate 50 [], requested = []\<rparr>"
  using crawl_site_page_cap [of ex_world "''example.com''" 1] by simp


section \<open>Same-host crawling\<close>

text \<open>
  The host of a URL is the netloc of the URL without its fragment; the seed host is the
  host of the seed URL after the scheme has been supplied.
\<close>

definition seed_host :: "world \<Rightarrow> string \<Rightarrow> string" where
  "seed_host w start_url = netloc w (urldefrag w (normalize_start start_url))"

lemma same_host_init: "same_host w (seed_host w s) (crawl_init s)"
  by (simp add: same_host_def seed_host_def crawl_init_def)

lemma dedup_init: "dedup (crawl_init s)"
  by (simp add: dedup_def crawl_init_def)

lemma fetched_ok_init: "fetched_ok w (crawl_init s)"
  by (simp add: fetched_ok_def crawl_init_def)

text \<open>
  C5. During every crawl, every URL in the queue has the seed's host, and so has every
  URL that is requested and every page that is returned: \<open>same_host\<close> holds after any
  number \<open>n\<close> of loop iterations and in the final state. A link is enqueued only when its
  netloc is the netloc of the page it was found on, so links to other hosts are dropped.
  The one assumption is on the library: \<open>urldefrag\<close> returns a URL without a fragment,
  which it leaves unchanged when applied again. (A redirect followed inside
  \<open>requests.get\<close> is part of the transport and is not visible to the crawler.)
\<close>

theorem crawl_same_host:
  assumes idem: "\<And>u. urldefrag w (urldefrag w u) = urldefrag w u"
  shows "same_host w (seed_host w start_url) ((crawl_step w max_depth ^^ n) (crawl_init start_url))
       \<and> same_host w (seed_host w start_url) (crawl_loop w max_depth (crawl_init start_url))
       \<and> (\<forall>p \<in> set (crawl_site w start_url max_depth).
             \<exists>u. url_is p u \<and> netloc w u = seed_host w start_url)
       \<and> (\<forall>(u, d) \<in> set (discovered w vis page_url html depth). netloc w u = netloc w page_url)"
proof -
  let ?h = "seed_host w start_url"
  have step: "\<forall>s. same_host w ?h s \<longrightarrow> same_host w ?h (crawl_step w max_depth s)"
    using same_host_step [OF idem] by blast
  have a: "same_host w ?h ((crawl_step w max_depth ^^ n) (crawl_init start_url))"
    by (rule crawl_funpow_invariant [OF same_host_init step])
  have b: "same_host w ?h (crawl_loop w max_depth (crawl_init start_url))"
    by (rule crawl_loop_invariant [OF same_host_init step])
  from b have c: "\<forall>p \<in> set (crawl_site w start_url max_depth).
             \<exists>u. url_is p u \<and> netloc w u = ?h"
    by (simp add: same_host_def crawl_site_def)
  have d: "\<forall>(u, d) \<in> set (discovered w vis page_url html depth). netloc w u = netloc w page_url"
    by (auto simp: discovered_def)
  from a b c d show ?thesis by blast
qed

theorem crawl_same_host_witness:
  "same_host ex_world ''example.com'' (crawl_loop ex_world 1 (crawl_init ''example.com''))
   \<and> list_all (\<lambda>u. netloc ex_world u = ''example.com'')
        [''https://example.com'', ''https://example.com/page'', ''https://example.com/missing'']
   \<and> discovered ex_world {''https://example.com''} ''https://example.com'' ex_home_html 0 =
        [(''https://example.com/page'', 1), (''https://example.com/page'', 1),
         (''https://example.com/missing'', 1)]"
proof -
  have h: "seed_host ex_world ''example.com'' = ''example.com''"
    by code_simp
  have d: "discovered ex_world {''https://example.com''} ''https://example.com'' ex_home_html 0 =
        [(''https://example.com/page'', 1), (''https://example.com/page'', 1),
         (''https://example.com/missing'', 1)]"
    by code_simp
  from crawl_same_host [where w = ex_world and start_url = "''example.com''" and max_depth = 1 and n = 0,
      OF ex_urldefrag_idem]
  have s: "same_host ex_world ''example.com'' (crawl_loop ex_world 1 (crawl_init ''example.com''))"
    by (simp add: h)
  then have "list_all (\<lambda>u. netloc ex_world u = ''example.com'')
       (requested (crawl_loop ex_world 1 (crawl_init ''example.com'')))"
    by (simp add: same_host_def list_all_iff)
  with s d show ?thesis by (simp add: ex_crawl_requested)
qed

section \<open>Deduplication by the URL without its fragment\<close>

text \<open>
  C8. The key of the visited set is \<open>urldefrag url\<close> and nothing else: a queue entry
  whose URL without fragment is already visited is dropped without a request, and the
  only URL an iteration can add to the visited set is the entry's URL without its
  fragment. Hence the request trace never holds a URL twice (\<open>dedup\<close>, after any number
  of iterations and in the final state), and two URLs that differ only in their fragment
  lead to at most one request. What \<open>urldefrag\<close> keeps of the URL (path and query) is
  the library's business; the example world shows it on the URLs of the claim.
\<close>

theorem crawl_dedup:
  "dedup ((crawl_step w max_depth ^^ n) (crawl_init start_url))
   \<and> dedup (crawl_loop w max_depth (crawl_init start_url))
   \<and> (\<forall>st url depth rest.
         to_visit st = (url, depth) # rest \<and> urldefrag w url \<in> visited st
         \<longrightarrow> crawl_step w max_depth st = st\<lparr>to_visit := rest\<rparr>)
   \<and> (\<forall>st url depth rest.
         to_visit st = (url, depth) # rest
         \<longrightarrow> visited (crawl_step w max_depth st) = visited st
            \<or> visited (crawl_step w max_depth st) = insert (urldefrag w url) (visited st))"
proof -
  have step: "\<forall>s. dedup s \<longrightarrow> dedup (crawl_step w max_depth s)"
    using dedup_step by blast
  have a: "dedup ((crawl_step w max_depth ^^ n) (crawl_init start_url))"
    by (rule crawl_funpow_invariant [OF dedup_init step])
  have b: "dedup (crawl_loop w max_depth (crawl_init start_url))"
    by (rule crawl_loop_invariant [OF dedup_init step])
  have c: "crawl_step w max_depth st = st\<lparr>to_visit := rest\<rparr>"
    if "to_visit st = (url, depth) # rest" "urldefrag w url \<in> visited st" for st url depth rest
    using that by (simp add: crawl_step_def)
  have d: "visited (crawl_step w max_depth st) = visited st
            \<or> visited (crawl_step w max_depth st) = insert (urldefrag w url) (visited st)"
    if "to_visit st = (url, depth) # rest" for st url depth rest
    using that by (cases rule: crawl_step_cases [where st = st and w = w and md = max_depth]) auto
  from a b c d show ?thesis by blast
qed

theorem crawl_dedup_witness:
  "urldefrag ex_world ''https://example.com/page#section'' = ''https://example.com/page''
   \<and> urldefrag ex_world ''https://example.com/page'' = ''https://example.com/page''
   \<and> urldefrag ex_world ''https://example.com/page?id=7#top'' = ''https://example.com/page?id=7''
   \<and> distinct (requested (crawl_loop ex_world 1 (crawl_init ''example.com'')))
   \<and> requested (crawl_loop ex_world 1 (crawl_init ''example.com'')) =
       [''https://example.com'', ''https://example.com/page'', ''https://example.com/missing'']
   \<and> crawl_step ex_world 1
         \<lparr>visited = {''https://example.com/page''},
          to_visit = [(''https://example.com/page#section'', 1)], pages_data = [], requested = []\<rparr>
       = \<lparr>visited = {''https://example.com/page''}, to_visit = [], pages_data = [], requested = []\<rparr>"
proof -
  have u: "urldefrag ex_world ''https://example.com/page#section'' = ''https://example.com/page''"
      "urldefrag ex_world ''https://example.com/page'' = ''https://example.com/page''"
      "urldefrag ex_world ''https://example.com/page?id=7#top'' = ''https://example.com/page?id=7''"
    by (simp_all add: ex_world_def ex_urldefrag_def)
  note t = crawl_dedup [where w = ex_world and start_url = "''example.com''" and max_depth = 1 and n = 0]
  from t have d: "distinct (requested (crawl_loop ex_world 1 (crawl_init ''example.com'')))"
    by (simp add: dedup_def)
  from t have "\<forall>st url depth rest.
         to_visit st = (url, depth) # rest \<and> urldefrag ex_world url \<in> visited st
         \<longrightarrow> crawl_step ex_world 1 st = st\<lparr>to_visit := rest\<rparr>"
    by blast
  from this [rule_format, of "\<lparr>visited = {''https://example.com/page''},
          to_visit = [(''https://example.com/page#section'', 1)], pages_data = [], requested = []\<rparr>"
        "''https://example.com/page#section''" 1 "[]"]
  have c: "crawl_step ex_world 1
         \<lparr>visited = {''https://example.com/page''},
          to_visit = [(''https://example.com/page#section'', 1)], pages_data = [], requested = []\<rparr>
       = \<lparr>visited = {''https://example.com/page''}, to_visit = [], pages_data = [], requested = []\<rparr>"
    by (simp add: u)
  from u d c show ?thesis
    by (simp add: ex_crawl_requested)
qed

section \<open>A failed fetch\<close>

text \<open>
  C1, as the program behaves. When \<open>requests.get\<close> or \<open>raise_for_status\<close> raises, the
  handler prints the error and continues with the loop: the URL stays in the visited set,
  no page record is appended, and the loop goes on with the rest of the queue. So no
  returned page record belongs to a URL whose fetch fails, every returned record comes
  from a successful fetch and has the four keys \<open>url\<close>, \<open>html\<close>, \<open>status_code\<close> and
  \<open>depth\<close>, and a failing entry only shortens the queue.
\<close>

theorem failed_fetch_is_skipped:
  "(\<forall>u e. fetch w u = Inl e \<longrightarrow> \<not> (\<exists>p \<in> set (crawl_site w start_url max_depth). url_is p u))
   \<and> (\<forall>p \<in> set (crawl_site w start_url max_depth).
         \<exists>u r d. fetch w u = Inr r \<and> p = make_page u r d)
   \<and> (\<forall>st url depth rest e.
         to_visit st = (url, depth) # rest \<and> urldefrag w url \<notin> visited st \<and> depth \<le> max_depth
         \<and> fetch w (urldefrag w url) = Inl e \<and> length (pages_data st) < 50
         \<longrightarrow> crawl_step w max_depth st =
               st\<lparr>to_visit := rest, visited := insert (urldefrag w url) (visited st),
                  requested := requested st @ [urldefrag w url]\<rparr>
             \<and> pages_data (crawl_step w max_depth st) = pages_data st
             \<and> crawl_loop w max_depth st = crawl_loop w max_depth (crawl_step w max_depth st))"
proof -
  have step: "\<forall>s. fetched_ok w s \<longrightarrow> fetched_ok w (crawl_step w max_depth s)"
    using fetched_ok_step by blast
  have "fetched_ok w (crawl_loop w max_depth (crawl_init start_url))"
    by (rule crawl_loop_invariant [OF fetched_ok_init step])
  then have b: "\<forall>p \<in> set (crawl_site w start_url max_depth).
         \<exists>u r d. fetch w u = Inr r \<and> p = make_page u r d"
    by (simp add: fetched_ok_def crawl_site_def)
  have a: "\<not> (\<exists>p \<in> set (crawl_site w start_url max_depth). url_is p u)" if f: "fetch w u = Inl e" for u e
  proof
    assume "\<exists>p \<in> set (crawl_site w start_url max_depth). url_is p u"
    then obtain p where p: "p \<in> set (crawl_site w start_url max_depth)" and u: "url_is p u"
      by blast
    from b p obtain v r d where v: "fetch w v = Inr r" and pe: "p = make_page v r d" by blast
    from u pe have "v = u" by simp
    with v f show False by simp
  qed
  have c: "crawl_step w max_depth st =
               st\<lparr>to_visit := rest, visited := insert (urldefrag w url) (visited st),
                  requested := requested st @ [urldefrag w url]\<rparr>
             \<and> pages_data (crawl_step w max_depth st) = pages_data st
             \<and> crawl_loop w max_depth st = crawl_loop w max_depth (crawl_step w max_depth st)"
    if q: "to_visit st = (url, depth) # rest" and nv: "urldefrag w url \<notin> visited st"
      and dp: "depth \<le> max_depth" and f: "fetch w (urldefrag w url) = Inl e"
      and lt: "length (pages_data st) < 50"
    for st url depth rest e
  proof -
    have s: "crawl_step w max_depth st =
               st\<lparr>to_visit := rest, visited := insert (urldefrag w url) (visited st),
                  requested := requested st @ [urldefrag w url]\<rparr>"
      using q nv dp f by (simp add: crawl_step_def Let_def)
    from q lt have "crawl_cond st" by (simp add: crawl_cond_def)
    then have l: "crawl_loop w max_depth st = crawl_loop w max_depth (crawl_step w max_depth st)"
      by (subst crawl_loop.simps) simp
    from s l show ?thesis by simp
  qed
  from a b c show ?thesis by blast
qed


theorem failed_fetch_is_skipped_witness:
  "fetch ex_world ''https://example.com/missing'' = Inl (HTTPError 404)
   \<and> \<not> (\<exists>p \<in> set (crawl_site ex_world ''example.com'' 1). url_is p ''https://example.com/missing'')
   \<and> list_all (\<lambda>p. map fst p = [''url'', ''html'', ''status_code'', ''depth''])
        (crawl_site ex_world ''example.com'' 1)"
proof -
  have f: "fetch ex_world ''https://example.com/missing'' = Inl (HTTPError 404)"
    by code_simp
  note t = failed_fetch_is_skipped [where w = ex_world and start_url = "''example.com''" and max_depth = 1]
  from t f have a: "\<not> (\<exists>p \<in> set (crawl_site ex_world ''example.com'' 1). url_is p ''https://example.com/missing'')"
    by blast
  from t have "\<forall>p \<in> set (crawl_site ex_world ''example.com'' 1).
         \<exists>u r d. fetch ex_world u = Inr r \<and> p = make_page u r d"
    by blast
  then have b: "list_all (\<lambda>p. map fst p = [''url'', ''html'', ''status_code'', ''depth''])
        (crawl_site ex_world ''example.com'' 1)"
    by (auto simp: list_all_iff make_page_def)
  from f a b show ?thesis by simp
qed

text \<open>
  The claim as the spec states it fails: in the example crawl \<open>/missing\<close> is requested
  and answers 404, and an unreachable seed is requested and raises; neither gets a page
  record, with or without an \<open>error\<close> field.
\<close>

theorem failed_fetch_record_counterexample:
  "fetch ex_world ''https://example.com/missing'' = Inl (HTTPError 404)
   \<and> requested (crawl_loop ex_world 1 (crawl_init ''example.com'')) =
       [''https://example.com'', ''https://example.com/page'', ''https://example.com/missing'']
   \<and> map (\<lambda>p. getitem p ''url'') (crawl_site ex_world ''example.com'' 1) =
       [Inr (PyStr ''https://example.com''), Inr (PyStr ''https://example.com/page'')]
   \<and> fetch ex_world ''https://down.example'' = Inl (RequestException ''unreachable'')
   \<and> requested (crawl_loop ex_world 1 (crawl_init ''down.example'')) = [''https://down.example'']
   \<and> crawl_site ex_world ''down.example'' 1 = []"
  unfolding crawl_site_def by code_simp

section \<open>The robots.txt check (checks.py)\<close>

text \<open>
  A check returns a dict with the keys \<open>passed\<close> and \<open>message\<close> (some checks add
  \<open>data\<close>, the details of their analysis, which nothing in the score reads and the model
  leaves out).
\<close>

record check_result =
  passed :: bool
  message :: string

text \<open>
  The lines the check looks at: the body in lower case, split at newlines, without
  blank lines and comment lines, each line stripped.
\<close>

definition robots_lines :: "string \<Rightarrow> string list" where
  "robots_lines text =
     map py_strip
       (filter (\<lambda>line. py_strip line \<noteq> [] \<and> \<not> startswith (py_strip line) ''#'')
          (split_on CHR 0x0A (py_lower text)))"

definition is_user_agent :: "string \<Rightarrow> bool" where
  "is_user_agent line = startswith line ''user-agent:''"

definition is_disallow :: "string \<Rightarrow> bool" where
  "is_disallow line = startswith line ''disallow:''"

definition is_allow :: "string \<Rightarrow> bool" where
  "is_allow line = startswith line ''allow:''"

definition directive_value :: "string \<Rightarrow> string" where
  "directive_value line = py_strip (after_colon line)"

text \<open>
  The \<open>for line in lines\<close> loop with its two variables. The third branch of the source
  (\<open>elif line.startswith('user-agent:') and in_wildcard_section: break\<close>) stands after
  a branch with the same test and is never taken; it is kept as written.
\<close>

fun robots_scan :: "bool \<Rightarrow> string list \<Rightarrow> string list \<Rightarrow> string list" where
  "robots_scan in_wildcard_section wildcard_disallows [] = wildcard_disallows"
| "robots_scan in_wildcard_section wildcard_disallows (line # lines) =
     (if is_user_agent line
      then robots_scan (directive_value line = ''*'') wildcard_disallows lines
      else if in_wildcard_section \<and> is_disallow line
      then robots_scan in_wildcard_section
             (wildcard_disallows @ [directive_value line]) lines
      else if is_user_agent line \<and> in_wildcard_section
      then wildcard_disallows
      else robots_scan in_wildcard_section wildcard_disallows lines)"

text \<open>
  \<open>robots_verdict\<close> is the body of the \<open>try\<close> statement as a function of what
  \<open>requests.get\<close> did: it raised, or it returned a status code and a body.
\<close>

definition robots_verdict :: "exn + (int \<times> string) \<Rightarrow> check_result" where
  "robots_verdict resp =
     (case resp of
        Inl e \<Rightarrow>
          \<lparr>passed = True, message = ''Could not check robots.txt (allows crawling): '' @ str_exn e\<rparr>
      | Inr (status_code, text) \<Rightarrow>
          if status_code = 404
          then \<lparr>passed = True, message = ''No robots.txt found (allows crawling per RFC)''\<rparr>
          else if status_code \<noteq> 200
          then \<lparr>passed = True,
                message = ''robots.txt returned '' @ str_int status_code @ '' (allows crawling)''\<rparr>
          else
            let lines = robots_lines text;
                wildcard_disallows = robots_scan False [] lines
            in if ''/'' \<in> set wildcard_disallows
                  \<and> length (filter (\<lambda>d. d = ''/'') wildcard_disallows) > 0
                  \<and> filter is_allow lines = []
               then \<lparr>passed = False, message = ''robots.txt disallows all crawling''\<rparr>
               else \<lparr>passed = True, message = ''robots.txt allows crawling''\<rparr>)"

text \<open>
  \<open>base_url\<close> is \<open>f"{urlparse(url).scheme}://{urlparse(url).netloc}"\<close>, computed before
  the \<open>try\<close>: an exception of \<open>urlparse\<close> leaves the check. What urllib makes of a
  value that is not a string is a parameter.
\<close>

definition base_url :: "world \<Rightarrow> pyval \<Rightarrow> exn + string" where
  "base_url w v =
     (case v of
        PyStr u \<Rightarrow> (case urlparse_error w u of
                     Some e \<Rightarrow> Inl e
                   | None \<Rightarrow> Inr (scheme w u @ ''://'' @ netloc w u))
      | _ \<Rightarrow> urlparse_other w v)"

definition check_robots_txt_allows_crawling :: "world \<Rightarrow> pydict \<Rightarrow> exn + check_result" where
  "check_robots_txt_allows_crawling w page_data =
     (case getitem page_data ''url'' of
        Inl e \<Rightarrow> Inl e
      | Inr url \<Rightarrow>
          (case base_url w url of
             Inl e \<Rightarrow> Inl e
           | Inr b \<Rightarrow> Inr (robots_verdict (requests_get w (urljoin w b ''/robots.txt'')))))"





























section \<open>The checks on the markup (checks.py)\<close>

text \<open>
  Each of the four checks reads \<open>page_data['html']\<close> and parses it, outside any
  \<open>try\<close> statement: a missing key raises \<open>KeyError\<close>, and BeautifulSoup raises
  \<open>TypeError\<close> for a markup that is not a string (the model keeps a short form of
  the message) and \<open>parser_error\<close> for a string that the parser rejects.
  \<open>find_meta word\<close> is
  \<open>soup.find('meta', attrs={'name': re.compile('^word$', re.I)})\<close>; the pattern also
  matches a value that ends in one newline.
\<close>

definition BeautifulSoup :: "world \<Rightarrow> pyval \<Rightarrow> exn + node list" where
  "BeautifulSoup w markup =
     (case markup of
        PyStr h \<Rightarrow> (case parser_error w h of Some e \<Rightarrow> Inl e | None \<Rightarrow> Inr (html_parser w h))
      | _ \<Rightarrow> Inl (TypeError ''Incoming markup is of an invalid type''))"

definition re_search_ci :: "string \<Rightarrow> string \<Rightarrow> bool" where
  "re_search_ci word v = (py_lower v = word \<or> py_lower v = word @ [CHR 0x0A])"

definition find_meta :: "string \<Rightarrow> node list \<Rightarrow> node option" where
  "find_meta word soup =
     (case filter (\<lambda>n. case get_attr n ''name'' of None \<Rightarrow> False | Some v \<Rightarrow> re_search_ci word v)
             (find_all [''meta''] soup) of
        [] \<Rightarrow> None
      | n # _ \<Rightarrow> Some n)"

definition get_or_empty :: "node \<Rightarrow> string \<Rightarrow> string" where
  "get_or_empty n name = (case get_attr n name of None \<Rightarrow> [] | Some v \<Rightarrow> v)"

definition check_meta_robots_allows_indexing :: "world \<Rightarrow> pydict \<Rightarrow> exn + check_result" where
  "check_meta_robots_allows_indexing w page_data =
     bindE (getitem page_data ''html'') (\<lambda>html.
     bindE (BeautifulSoup w html) (\<lambda>soup.
       Inr (case find_meta ''robots'' soup of
              None \<Rightarrow> \<lparr>passed = True, message = ''No meta robots tag (allows indexing)''\<rparr>
            | Some meta_robots \<Rightarrow>
                if contains (py_lower (get_or_empty meta_robots ''content'')) ''noindex''
                then \<lparr>passed = False, message = ''Meta robots contains noindex''\<rparr>
                else \<lparr>passed = True, message = ''Meta robots allows indexing''\<rparr>)))"

definition nav_words :: "string list" where
  "nav_words = [''menu'', ''navigation'', ''skip to'']"

definition main_heading_candidates :: "node list \<Rightarrow> string list" where
  "main_heading_candidates h2_tags =
     filter (\<lambda>h2_text. length h2_text > 10
                \<and> \<not> list_ex (\<lambda>nav_word. contains (py_lower h2_text) nav_word) nav_words)
       (map get_text_strip h2_tags)"

definition check_has_h1_tag :: "world \<Rightarrow> pydict \<Rightarrow> exn + check_result" where
  "check_has_h1_tag w page_data =
     bindE (getitem page_data ''html'') (\<lambda>html.
     bindE (BeautifulSoup w html) (\<lambda>soup.
       Inr (case find_all [''h1''] soup of
              h1 # others \<Rightarrow>
                if length (h1 # others) > 1
                then \<lparr>passed = False,
                      message = ''Multiple H1 tags found ('' @ str_nat (length (h1 # others))
                                @ ''), should have exactly one''\<rparr>
                else if get_text_strip h1 = []
                then \<lparr>passed = False, message = ''H1 tag is empty''\<rparr>
                else \<lparr>passed = True,
                      message = ''H1 tag found: '' @ [CHR 0x22] @ take 50 (get_text_strip h1)
                                @ ''...'' @ [CHR 0x22]\<rparr>
            | [] \<Rightarrow>
                (case main_heading_candidates (find_all [''h2''] soup) of
                   h2_text # _ \<Rightarrow>
                     \<lparr>passed = False,
                      message = ''No H1 found, but H2 could be main heading: '' @ [CHR 0x22]
                                @ take 50 h2_text @ ''...'' @ [CHR 0x22]
                                @ '' - Consider changing to H1 for better SEO''\<rparr>
                 | [] \<Rightarrow>
                     \<lparr>passed = False,
                      message = ''No H1 tag found - Add a clear main heading for better AI understanding''\<rparr>))))"

definition check_has_meta_description :: "world \<Rightarrow> pydict \<Rightarrow> exn + check_result" where
  "check_has_meta_description w page_data =
     bindE (getitem page_data ''html'') (\<lambda>html.
     bindE (BeautifulSoup w html) (\<lambda>soup.
       Inr (case find_meta ''description'' soup of
              None \<Rightarrow> \<lparr>passed = False, message = ''No meta description found''\<rparr>
            | Some meta_desc \<Rightarrow>
                let content = py_strip (get_or_empty meta_desc ''content'') in
                if content = []
                then \<lparr>passed = False, message = ''Meta description is empty''\<rparr>
                else if length content < 120
                then \<lparr>passed = False,
                      message = ''Meta description too short ('' @ str_nat (length content)
                                @ '' chars, recommend 120-160)''\<rparr>
                else if length content > 160
                then \<lparr>passed = False,
                      message = ''Meta description too long ('' @ str_nat (length content)
                                @ '' chars, recommend 120-160)''\<rparr>
                else \<lparr>passed = True,
                      message = ''Good meta description ('' @ str_nat (length content) @ '' chars)''\<rparr>)))"

definition check_images_have_alt_text :: "world \<Rightarrow> pydict \<Rightarrow> exn + check_result" where
  "check_images_have_alt_text w page_data =
     bindE (getitem page_data ''html'') (\<lambda>html.
     bindE (BeautifulSoup w html) (\<lambda>soup.
       Inr (let images = find_all [''img''] soup in
            if images = []
            then \<lparr>passed = True, message = ''No images found''\<rparr>
            else
              let missing_alt = filter (\<lambda>img. get_attr img ''alt'' = None) images;
                  empty_alt = filter (\<lambda>img. case get_attr img ''alt'' of
                                               None \<Rightarrow> False | Some alt \<Rightarrow> py_strip alt = []) images;
                  total_issues = length missing_alt + length empty_alt
              in if total_issues = 0
                 then \<lparr>passed = True,
                       message = ''All '' @ str_nat (length images) @ '' images have alt text''\<rparr>
                 else if total_issues = length images
                 then \<lparr>passed = False,
                       message = ''All '' @ str_nat (length images) @ '' images missing alt text''\<rparr>
                 else \<lparr>passed = False,
                       message = str_nat total_issues @ ''/'' @ str_nat (length images)
                                 @ '' images missing/empty alt text''\<rparr>)))"


section \<open>The content analysis for language models (llm_analysis.py, llm_scraper.py)\<close>

text \<open>
  \<open>extract_llm_readable_content\<close> wraps its whole body in \<open>try\<close> and turns an
  exception into a failed check result that carries the exception's text.
\<close>

definition truthy_attr :: "node \<Rightarrow> string \<Rightarrow> bool" where
  "truthy_attr n name = (case get_attr n name of None \<Rightarrow> False | Some v \<Rightarrow> v \<noteq> [])"

definition llm_readiness_score :: "node list \<Rightarrow> int" where
  "llm_readiness_score soup =
     (let headings = int (length (find_all [''h1'', ''h2'', ''h3'', ''h4'', ''h5'', ''h6''] soup));
          paragraphs = int (length (find_all [''p''] soup));
          lists = int (length (find_all [''ul'', ''ol''] soup));
          alt_text_images = int (length (filter (\<lambda>img. truthy_attr img ''alt'') (find_all [''img''] soup)));
          structured_data = int (length (filter (\<lambda>n. get_attr n ''type'' = Some ''application/ld+json'')
                                           (find_all [''script''] soup)));
          tables = int (length (find_all [''table''] soup));
          forms = int (length (find_all [''form''] soup));
          images_without_alt = int (length (filter (\<lambda>img. \<not> truthy_attr img ''alt'') (find_all [''img''] soup)));
          canvas_elements = int (length (find_all [''canvas''] soup));
          media_elements = int (length (find_all [''audio'', ''video''] soup));
          javascript_dependent = int (length (filter (\<lambda>n. get_attr n ''onclick'' \<noteq> None) (all_elements soup)));
          easily_readable_score = min 50 (headings * 3 + paragraphs * 2 + lists * 2
                                          + alt_text_images * 2 + structured_data * 5);
          challenging_penalty = min 20 (tables * 2 + forms * 1 + images_without_alt * 3);
          inaccessible_penalty = min 30 (canvas_elements * 5 + media_elements * 3 + javascript_dependent * 2)
      in max 0 (easily_readable_score - challenging_penalty - inaccessible_penalty))"

definition extract_llm_readable_content :: "world \<Rightarrow> pyval \<Rightarrow> pyval \<Rightarrow> check_result" where
  "extract_llm_readable_content w html url =
     (case BeautifulSoup w html of
        Inl e \<Rightarrow> \<lparr>passed = False, message = ''Error analyzing LLM content: '' @ str_exn e\<rparr>
      | Inr soup \<Rightarrow>
          let s = llm_readiness_score soup in
          if s \<ge> 35
          then \<lparr>passed = True, message = ''High LLM content accessibility (score: '' @ str_int s @ '')''\<rparr>
          else if s \<ge> 20
          then \<lparr>passed = True, message = ''Moderate LLM content accessibility (score: '' @ str_int s @ '')''\<rparr>
          else \<lparr>passed = False, message = ''Low LLM content accessibility (score: '' @ str_int s @ '')''\<rparr>)"


text \<open>
  \<open>scrape_as_llm\<close> wraps its body in \<open>try\<close> too and returns a dict with empty content
  and richness 0 when anything raises. (\<open>analyze_llm_accessibility\<close> is wrapped in the
  same way; its result is stored under \<open>data\<close> and read by nothing.) The two functions
  of content_analysis.py are not wrapped.
\<close>

definition scrape_as_llm :: "world \<Rightarrow> pyval \<Rightarrow> pyval \<Rightarrow> llm_content" where
  "scrape_as_llm w html url =
     (case bindE (BeautifulSoup w html) (\<lambda>soup. scrape_body w soup url) of
        Inl e \<Rightarrow> \<lparr>headings = [], main_content = [], llm_richness_score = 0\<rparr>
      | Inr llm_content \<Rightarrow> llm_content)"

definition analyze_content_readability :: "world \<Rightarrow> pydict \<Rightarrow> exn + int" where
  "analyze_content_readability w page_data =
     bindE (getitem page_data ''html'') (\<lambda>html.
     bindE (BeautifulSoup w html) (\<lambda>soup. Inr (readability_of w soup)))"

definition analyze_structured_data :: "world \<Rightarrow> pydict \<Rightarrow> exn + (int \<times> int)" where
  "analyze_structured_data w page_data =
     bindE (getitem page_data ''html'') (\<lambda>html.
     bindE (BeautifulSoup w html) (\<lambda>soup. Inr (structured_data_of w soup)))"

section \<open>Scoring a page (scoring.py)\<close>

text \<open>The loop over \<open>checks.items()\<close> that adds the points of the checks that passed.\<close>

fun add_points :: "(string \<times> check_result) list \<Rightarrow> int \<Rightarrow> int" where
  "add_points [] score = score"
| "add_points ((check_name, check_result) # rest) score =
     add_points rest
       (if passed check_result
        then (if startswith check_name ''llm_'' then score + 25 else score + 15)
        else score)"

text \<open>
  The result of \<open>score_page\<close>. Of the \<open>content_analysis\<close> dict the three numbers that
  \<open>calculate_scores\<close> reads are kept.
\<close>

record page_result =
  url :: pyval
  score :: int
  checks :: "(string \<times> check_result) list"
  readability_score :: int
  structured_data_richness :: int
  structured_schemas_count :: int

text \<open>The dict literal \<open>checks\<close> of \<open>score_page\<close>, in the order it is written.\<close>

definition checks_dict ::
    "llm_content \<Rightarrow> check_result \<Rightarrow> check_result \<Rightarrow> check_result \<Rightarrow> check_result
     \<Rightarrow> check_result \<Rightarrow> check_result \<Rightarrow> (string \<times> check_result) list" where
  "checks_dict llm_content llm_readable_content robots meta_robots h1 meta_description alt_text =
     [(''llm_content_analysis'', llm_readable_content),
      (''llm_accessibility_analysis'',
         \<lparr>passed = True,
          message = ''LLM can access '' @ str_nat (length (headings llm_content))
                    @ '' headings, '' @ str_nat (length (py_split (main_content llm_content)))
                    @ '' words of content''\<rparr>),
      (''llm_content_richness'',
         \<lparr>passed = (llm_richness_score llm_content \<ge> 50),
          message = ''Content richness score: '' @ str_int (llm_richness_score llm_content)
                    @ ''/100''\<rparr>),
      (''robots_txt_allows_crawling'', robots),
      (''meta_robots_allows_indexing'', meta_robots),
      (''has_h1_tag'', h1),
      (''has_meta_description'', meta_description),
      (''images_have_alt_text'', alt_text)]"

text \<open>
  \<open>score_page\<close> evaluates its statements in the order of the source; the first exception
  ends it.
\<close>

definition score_page :: "world \<Rightarrow> pydict \<Rightarrow> exn + page_result" where
  "score_page w page_data =
     bindE (getitem page_data ''html'') (\<lambda>html.
     bindE (getitem page_data ''url'') (\<lambda>url.
     let llm_content = scrape_as_llm w html url;
         llm_readable_content = extract_llm_readable_content w html url
     in
     bindE (check_robots_txt_allows_crawling w page_data) (\<lambda>robots.
     bindE (check_meta_robots_allows_indexing w page_data) (\<lambda>meta_robots.
     bindE (check_has_h1_tag w page_data) (\<lambda>h1.
     bindE (check_has_meta_description w page_data) (\<lambda>meta_description.
     bindE (check_images_have_alt_text w page_data) (\<lambda>alt_text.
     let checks = checks_dict llm_content llm_readable_content robots meta_robots h1
                    meta_description alt_text
     in
     bindE (analyze_content_readability w page_data) (\<lambda>readability.
     bindE (analyze_structured_data w page_data) (\<lambda>structured.
     bindE (getitem page_data ''url'') (\<lambda>result_url.
       Inr \<lparr>url = result_url,
            score = min 100 (add_points checks 0),
            checks = checks,
            readability_score = readability,
            structured_data_richness = snd structured,
            structured_schemas_count = fst structured\<rparr>))))))))))"

section \<open>Scoring a site (scoring.py)\<close>

text \<open>
  \<open>round(a / b)\<close> on the exact quotient: Python rounds a tie to the even neighbour.
  (The program divides in floating point; the quotient of two integers is rounded
  correctly, and for a list of fewer than \<open>2^45\<close> pages this changes no result.)
\<close>

definition py_round :: "rat \<Rightarrow> int" where
  "py_round x =
     (let f = \<lfloor>x\<rfloor>; d = x - of_int f in
      if d < 1 / 2 then f else if d > 1 / 2 then f + 1 else if even f then f else f + 1)"

text \<open>
  The recommendation texts are long strings with the counts filled in; each is modelled
  by a constructor that names the rule and carries the count. In
  \<open>generate_ai_powered_recommendations\<close> the variable \<open>sample_pages\<close> is assigned only
  when more than half of the pages fail the H1 check and is read when a page fails the
  meta description check, so the function raises \<open>UnboundLocalError\<close> then.
\<close>

datatype recommendation =
    AiInsight string
  | RobotsBlocked nat
  | NoindexTags nat
  | MissingMainHeading nat
  | MissingMetaDescription nat
  | MissingAltText nat
  | SimplifyWriting
  | AddStructuredData

record recommendations =
  critical :: "recommendation list"
  important :: "recommendation list"
  suggested :: "recommendation list"

record site_result =
  pages :: "page_result list"
  site_score :: int
  high_accessibility :: nat
  medium_accessibility :: nat
  low_accessibility :: nat
  avg_readability_score :: int
  avg_structured_data_richness :: int
  total_structured_schemas :: int
  site_recommendations :: recommendations

text \<open>The running totals of the loop in \<open>calculate_scores\<close>, and one iteration.\<close>

record totals =
  results_pages :: "page_result list"
  total_score :: int
  total_readability :: int
  total_structured_data :: int
  total_schemas :: int
  n_high :: nat
  n_medium :: nat
  n_low :: nat

definition totals_init :: totals where
  "totals_init = \<lparr>results_pages = [], total_score = 0, total_readability = 0,
                   total_structured_data = 0, total_schemas = 0,
                   n_high = 0, n_medium = 0, n_low = 0\<rparr>"

definition add_page :: "totals \<Rightarrow> page_result \<Rightarrow> totals" where
  "add_page t page_result =
     t\<lparr>results_pages := results_pages t @ [page_result],
       total_score := total_score t + score page_result,
       total_readability := total_readability t + readability_score page_result,
       total_structured_data := total_structured_data t + structured_data_richness page_result,
       total_schemas := total_schemas t + structured_schemas_count page_result,
       n_high := (if score page_result \<ge> 80 then n_high t + 1 else n_high t),
       n_medium := (if \<not> score page_result \<ge> 80 \<and> score page_result \<ge> 50
                    then n_medium t + 1 else n_medium t),
       n_low := (if \<not> score page_result \<ge> 80 \<and> \<not> score page_result \<ge> 50
                 then n_low t + 1 else n_low t)\<rparr>"

fun score_loop :: "world \<Rightarrow> pydict list \<Rightarrow> totals \<Rightarrow> exn + totals" where
  "score_loop w [] t = Inr t"
| "score_loop w (page_data # rest) t =
     bindE (score_page w page_data) (\<lambda>page_result. score_loop w rest (add_page t page_result))"

definition issues :: "string \<Rightarrow> page_result list \<Rightarrow> nat" where
  "issues check_name ps =
     length (filter (\<lambda>page. case map_of (checks page) check_name of
                               None \<Rightarrow> False | Some c \<Rightarrow> \<not> passed c) ps)"

definition generate_recommendations :: "site_result \<Rightarrow> recommendations" where
  "generate_recommendations results =
     (let total_pages = length (pages results);
          robots_issues = issues ''robots_txt_allows_crawling'' (pages results);
          meta_robots_issues = issues ''meta_robots_allows_indexing'' (pages results);
          h1_issues = issues ''has_h1_tag'' (pages results);
          meta_desc_issues = issues ''has_meta_description'' (pages results);
          alt_text_issues = issues ''images_have_alt_text'' (pages results)
      in \<lparr>critical =
             (if robots_issues > 0 then [RobotsBlocked robots_issues] else [])
             @ (if meta_robots_issues > 0 then [NoindexTags meta_robots_issues] else [])
             @ (if 2 * h1_issues > total_pages then [MissingMainHeading h1_issues] else []),
           important =
             (if meta_desc_issues > 0 then [MissingMetaDescription meta_desc_issues] else [])
             @ (if alt_text_issues > 0 then [MissingAltText alt_text_issues] else []),
           suggested =
             (if avg_readability_score results < 70 then [SimplifyWriting] else [])
             @ (if total_structured_schemas results = 0 then [AddStructuredData] else [])\<rparr>)"

definition generate_ai_powered_recommendations ::
    "site_result \<Rightarrow> openai_analysis \<Rightarrow> exn + recommendations" where
  "generate_ai_powered_recommendations results analysis =
     (let ai_recommendations = map AiInsight (website_specific_recommendations analysis);
          total_pages = length (pages results);
          robots_issues = issues ''robots_txt_allows_crawling'' (pages results);
          h1_issues = issues ''has_h1_tag'' (pages results);
          meta_desc_issues = issues ''has_meta_description'' (pages results);
          alt_text_issues = issues ''images_have_alt_text'' (pages results)
      in if meta_desc_issues > 0 \<and> \<not> 2 * h1_issues > total_pages
         then Inl (UnboundLocalError ''sample_pages'')
         else Inr
           \<lparr>critical = take 3 ai_recommendations
              @ (if robots_issues > 0 then [RobotsBlocked robots_issues] else [])
              @ (if 2 * h1_issues > total_pages then [MissingMainHeading h1_issues] else []),
            important = take 3 (drop 3 ai_recommendations)
              @ (if meta_desc_issues > 0 then [MissingMetaDescription meta_desc_issues] else [])
              @ (if alt_text_issues > 0 then [MissingAltText alt_text_issues] else []),
            suggested = drop 6 ai_recommendations\<rparr>)"

definition summarise :: "totals \<Rightarrow> nat \<Rightarrow> site_result" where
  "summarise t num_pages =
     \<lparr>pages = results_pages t,
      site_score = (if num_pages > 0 then py_round (of_int (total_score t) / of_nat num_pages) else 0),
      high_accessibility = n_high t,
      medium_accessibility = n_medium t,
      low_accessibility = n_low t,
      avg_readability_score =
        (if num_pages > 0 then py_round (of_int (total_readability t) / of_nat num_pages) else 0),
      avg_structured_data_richness =
        (if num_pages > 0 then py_round (of_int (total_structured_data t) / of_nat num_pages) else 0),
      total_structured_schemas = (if num_pages > 0 then total_schemas t else 0),
      site_recommendations = \<lparr>critical = [], important = [], suggested = []\<rparr>\<rparr>"

definition calculate_scores :: "world \<Rightarrow> pydict list \<Rightarrow> exn + site_result" where
  "calculate_scores w page_records =
     (let analysis = scrape_website_with_openai w page_records in
      bindE (score_loop w page_records totals_init) (\<lambda>t.
      let results = summarise t (length page_records) in
      bindE (if success analysis
             then generate_ai_powered_recommendations results analysis
             else Inr (generate_recommendations results)) (\<lambda>recs.
        Inr (results\<lparr>site_recommendations := recs\<rparr>))))"


section \<open>Example page records\<close>

text \<open>
  Two records as the crawler builds them, a record whose \<open>html\<close> is \<open>None\<close>, and the
  record of the old unit tests, with a score of its own and no \<open>html\<close>.
\<close>

definition ex_page :: pydict where
  "ex_page = make_page ''https://example.com/page'' (200, ex_page_html) 1"

definition ex_home :: pydict where
  "ex_home = make_page ''https://example.com'' (200, ex_home_html) 0"

definition ex_no_html :: pydict where
  "ex_no_html = [(''url'', PyStr ''https://example.com/gone''), (''html'', PyNone)]"

definition ex_scored :: "int \<Rightarrow> pydict" where
  "ex_scored n = [(''url'', PyStr ''https://example.com/page''), (''score'', PyInt n), (''checks'', PyDict [])]"

section \<open>The score of a page\<close>

definition llm_passed :: "(string \<times> check_result) list \<Rightarrow> nat" where
  "llm_passed cs = length (filter (\<lambda>(name, c). passed c \<and> startswith name ''llm_'') cs)"

definition other_passed :: "(string \<times> check_result) list \<Rightarrow> nat" where
  "other_passed cs = length (filter (\<lambda>(name, c). passed c \<and> \<not> startswith name ''llm_'') cs)"

lemma add_points_count:
  "add_points cs s = s + 25 * int (llm_passed cs) + 15 * int (other_passed cs)"
  by (induction cs s rule: add_points.induct) (auto simp: llm_passed_def other_passed_def)

definition check_names :: "string list" where
  "check_names = [''llm_content_analysis'', ''llm_accessibility_analysis'', ''llm_content_richness'',
                  ''robots_txt_allows_crawling'', ''meta_robots_allows_indexing'', ''has_h1_tag'',
                  ''has_meta_description'', ''images_have_alt_text'']"

lemma bindE_Inr: "bindE x f = Inr r \<longleftrightarrow> (\<exists>v. x = Inr v \<and> f v = Inr r)"
  by (cases x) (simp_all add: bindE_def)

lemma checks_dict_names:
  "map fst (checks_dict lc c1 c2 c3 c4 c5 c6) = check_names"
  by (simp add: checks_dict_def check_names_def)

lemma checks_dict_accessibility:
  "\<exists>c. map_of (checks_dict lc c1 c2 c3 c4 c5 c6) ''llm_accessibility_analysis'' = Some c \<and> passed c"
  by (simp add: checks_dict_def)

lemma score_page_Inr:
  assumes "score_page w page_data = Inr r"
  shows "score r = min 100 (add_points (checks r) 0)
       \<and> map fst (checks r) = check_names
       \<and> (\<exists>c. map_of (checks r) ''llm_accessibility_analysis'' = Some c \<and> passed c)"
proof -
  from assms obtain lc c1 c2 c3 c4 c5 c6 where
    "score r = min 100 (add_points (checks_dict lc c1 c2 c3 c4 c5 c6) 0)"
    "checks r = checks_dict lc c1 c2 c3 c4 c5 c6"
    unfolding score_page_def Let_def bindE_Inr by force
  then show ?thesis
    using checks_dict_names [of lc c1 c2 c3 c4 c5 c6] checks_dict_accessibility [of lc c1 c2 c3 c4 c5 c6]
    by simp
qed


lemma startswith_llm:
  "startswith ''llm_accessibility_analysis'' ''llm_''"
  by (simp add: startswith_def)

lemma llm_passed_pos:
  assumes "map_of cs name = Some c" "passed c" "startswith name ''llm_''"
  shows "0 < llm_passed cs"
proof -
  from assms(1) have "(name, c) \<in> set cs" by (rule map_of_SomeD)
  with assms(2,3) have "(name, c) \<in> set (filter (\<lambda>(name, c). passed c \<and> startswith name ''llm_'') cs)"
    by simp
  then show ?thesis
    unfolding llm_passed_def by (metis length_pos_if_in_set)
qed

lemma ex_page_scores:
  "map_sum id (\<lambda>r. (llm_passed (checks r), other_passed (checks r), score r))
     (score_page ex_world ex_page) = Inr (1, 4, 85)"
  by code_simp

lemma ex_home_scores:
  "map_sum id (\<lambda>r. (llm_passed (checks r), other_passed (checks r), score r))
     (score_page ex_world ex_home) = Inr (1, 3, 70)"
  by code_simp

text \<open>
  C3. Whenever \<open>score_page\<close> returns, the score is 25 points for each passed check whose
  name starts with \<open>llm_\<close> plus 15 points for each other passed check, capped at 100,
  so it lies between 0 and 100; the checks are always the same eight names.
\<close>

theorem score_page_weights:
  "\<forall>r. score_page w page_data = Inr r \<longrightarrow>
        score r = min 100 (25 * int (llm_passed (checks r)) + 15 * int (other_passed (checks r)))
      \<and> 0 \<le> score r \<and> score r \<le> 100
      \<and> map fst (checks r) = check_names"
proof -
  have a: "score r = min 100 (25 * int (llm_passed (checks r)) + 15 * int (other_passed (checks r)))
      \<and> 0 \<le> score r \<and> score r \<le> 100 \<and> map fst (checks r) = check_names"
    if "score_page w page_data = Inr r" for r
    using score_page_Inr [OF that] by (simp add: add_points_count)
  from a show ?thesis by blast
qed

theorem score_page_weights_witness:
  "\<exists>r. score_page ex_world ex_page = Inr r
      \<and> llm_passed (checks r) = 1 \<and> other_passed (checks r) = 4 \<and> score r = 85
      \<and> score r = min 100 (25 * int (llm_passed (checks r)) + 15 * int (other_passed (checks r)))"
proof -
  from ex_page_scores obtain r where r: "score_page ex_world ex_page = Inr r"
    and v: "llm_passed (checks r) = 1" "other_passed (checks r) = 4" "score r = 85"
    by (cases "score_page ex_world ex_page") auto
  from score_page_weights [of ex_world ex_page] r
  have "score r = min 100 (25 * int (llm_passed (checks r)) + 15 * int (other_passed (checks r)))"
    by blast
  with r v show ?thesis by blast
qed

text \<open>
  C10. Whenever \<open>score_page\<close> returns, the check \<open>llm_accessibility_analysis\<close> is in
  the result with \<open>passed = True\<close>; its name starts with \<open>llm_\<close>, so the score is at
  least 25 and never 0.
\<close>

theorem score_page_at_least_25:
  "score_page w page_data = Inr r \<Longrightarrow>
     25 \<le> score r \<and> score r \<noteq> 0
     \<and> (\<exists>c. map_of (checks r) ''llm_accessibility_analysis'' = Some c \<and> passed c)"
proof -
  assume a: "score_page w page_data = Inr r"
  from score_page_Inr [OF a] obtain c where
    s: "score r = min 100 (add_points (checks r) 0)"
    and c: "map_of (checks r) ''llm_accessibility_analysis'' = Some c" "passed c"
    by blast
  from llm_passed_pos [OF c startswith_llm] have "1 \<le> int (llm_passed (checks r))" by simp
  then have "25 \<le> add_points (checks r) 0" by (simp add: add_points_count)
  with s c show ?thesis by auto
qed


theorem score_page_at_least_25_witness:
  "\<exists>r. score_page ex_world ex_home = Inr r \<and> score r = 70 \<and> 25 \<le> score r
      \<and> llm_passed (checks r) = 1"
proof -
  from ex_home_scores obtain r where r: "score_page ex_world ex_home = Inr r"
    and v: "llm_passed (checks r) = 1" "score r = 70"
    by (cases "score_page ex_world ex_home") auto
  from score_page_at_least_25 [OF r] have "25 \<le> score r" by simp
  with r v show ?thesis by blast
qed

text \<open>
  C2, at a page record whose html is \<open>None\<close>. The four checks of checks.py parse the
  markup outside any \<open>try\<close> statement and \<open>score_page\<close> calls them bare: the
  \<open>TypeError\<close> of the parser leaves \<open>check_meta_robots_allows_indexing\<close>, then
  \<open>score_page\<close>, then \<open>calculate_scores\<close>, and the page scored before it is lost with
  the batch. \<open>extract_llm_readable_content\<close>, on the same markup, returns the failed
  check result that the claim describes.
\<close>

theorem unwrapped_check_aborts_scoring:
  "check_meta_robots_allows_indexing ex_world ex_no_html
     = Inl (TypeError ''Incoming markup is of an invalid type'')
   \<and> score_page ex_world ex_no_html = Inl (TypeError ''Incoming markup is of an invalid type'')
   \<and> calculate_scores ex_world [ex_page, ex_no_html]
     = Inl (TypeError ''Incoming markup is of an invalid type'')
   \<and> extract_llm_readable_content ex_world PyNone (PyStr ''https://example.com/gone'')
     = \<lparr>passed = False,
        message = ''Error analyzing LLM content: Incoming markup is of an invalid type''\<rparr>"
  by code_simp

section \<open>The site score\<close>

lemma py_round_near: "\<bar>of_int (py_round x) - x\<bar> \<le> 1 / 2"
proof -
  have "of_int \<lfloor>x\<rfloor> \<le> x" "x < of_int \<lfloor>x\<rfloor> + 1" by linarith+
  then show ?thesis
    by (auto simp: py_round_def Let_def)
qed

lemma score_loop_Inr:
  "score_loop w ps t = Inr t' \<Longrightarrow>
     \<exists>new. results_pages t' = results_pages t @ new
         \<and> map (score_page w) ps = map Inr new
         \<and> total_score t' = total_score t + sum_list (map score new)"
proof (induction ps arbitrary: t)
  case Nil
  then show ?case by simp
next
  case (Cons pd ps)
  from Cons.prems obtain pr where pr: "score_page w pd = Inr pr"
    and rest: "score_loop w ps (add_page t pr) = Inr t'"
    by (auto simp: bindE_Inr)
  from Cons.IH [OF rest] obtain new where
    "results_pages t' = results_pages (add_page t pr) @ new"
    "map (score_page w) ps = map Inr new"
    "total_score t' = total_score (add_page t pr) + sum_list (map score new)"
    by blast
  with pr have "results_pages t' = results_pages t @ (pr # new)
         \<and> map (score_page w) (pd # ps) = map Inr (pr # new)
         \<and> total_score t' = total_score t + sum_list (map score (pr # new))"
    by (simp add: add_page_def)
  then show ?case by blast
qed

lemma ex_site_scores:
  "map_sum id (\<lambda>r. (map score (pages r), site_score r))
     (calculate_scores ex_world [ex_home, ex_page]) = Inr ([70, 85], 78)"
  by code_simp

text \<open>
  C6, as the program behaves. \<open>calculate_scores\<close> takes page records and scores each with
  \<open>score_page\<close> itself. Whenever it returns, its pages are the results of \<open>score_page\<close>
  in order and the site score is the mean of their scores, rounded to the nearest
  integer (a tie to the even one), or 0 for no pages; \<open>calculate_scores []\<close> returns
  site score 0 and no pages; and the rounded mean of the scores 80, 60 and 100 is 80.
\<close>

theorem calculate_scores_site_score:
  "(\<forall>r. calculate_scores w ps = Inr r \<longrightarrow>
        map (score_page w) ps = map Inr (pages r)
      \<and> site_score r = (if ps = [] then 0
                        else py_round (of_int (sum_list (map score (pages r))) / of_nat (length ps))))
   \<and> (\<exists>r. calculate_scores w [] = Inr r \<and> site_score r = 0 \<and> pages r = [])
   \<and> (\<forall>x. \<bar>of_int (py_round x) - x\<bar> \<le> 1 / 2)
   \<and> py_round (of_int (sum_list [80, 60, 100]) / of_nat (length [80, 60, 100 :: int])) = 80"
proof -
  have a: "map (score_page w) ps = map Inr (pages r)
      \<and> site_score r = (if ps = [] then 0
                        else py_round (of_int (sum_list (map score (pages r))) / of_nat (length ps)))"
    if c: "calculate_scores w ps = Inr r" for r
  proof -
    from c obtain t recs where t: "score_loop w ps totals_init = Inr t"
      and r: "r = (summarise t (length ps))\<lparr>site_recommendations := recs\<rparr>"
      by (auto simp: calculate_scores_def Let_def bindE_Inr)
    from score_loop_Inr [OF t] have m: "map (score_page w) ps = map Inr (results_pages t)"
      and s: "total_score t = sum_list (map score (results_pages t))"
      by (auto simp: totals_init_def)
    from r m s show ?thesis by (simp add: summarise_def)
  qed
  have b: "\<exists>r. calculate_scores w [] = Inr r \<and> site_score r = 0 \<and> pages r = []"
    by (simp add: calculate_scores_def Let_def bindE_def summarise_def totals_init_def
        generate_ai_powered_recommendations_def issues_def)
  have e: "py_round (of_int (sum_list [80, 60, 100]) / of_nat (length [80, 60, 100 :: int])) = 80"
    by (simp add: py_round_def)
  from a b e py_round_near show ?thesis by blast
qed

theorem calculate_scores_site_score_witness:
  "\<exists>r. calculate_scores ex_world [ex_home, ex_page] = Inr r
      \<and> map score (pages r) = [70, 85] \<and> site_score r = 78
      \<and> map (score_page ex_world) [ex_home, ex_page] = map Inr (pages r)"
proof -
  from ex_site_scores obtain r where r: "calculate_scores ex_world [ex_home, ex_page] = Inr r"
    and v: "map score (pages r) = [70, 85]" "site_score r = 78"
    by (cases "calculate_scores ex_world [ex_home, ex_page]") auto
  from calculate_scores_site_score [of ex_world "[ex_home, ex_page]"] r
  have "map (score_page ex_world) [ex_home, ex_page] = map Inr (pages r)"
    by blast
  with r v show ?thesis by (intro exI [of _ r]) simp
qed

text \<open>
  The input of the spec's example, three records with the scores 80, 60 and 100 and no
  \<open>html\<close>: \<open>calculate_scores\<close> raises instead of returning the site score 80.
\<close>

theorem calculate_scores_scored_input_counterexample:
  "calculate_scores ex_world [ex_scored 80, ex_scored 60, ex_scored 100] = Inl (KeyError ''html'')
   \<and> calculate_scores ex_world [ex_scored 80] = Inl (KeyError ''html'')"
  by code_simp


section \<open>The command line (cli.py)\<close>

text \<open>
  The command \<open>audit\<close> prints with \<open>click.echo\<close> and writes files; its effect is the
  list of these outputs in order, and its outcome is a normal return or an exception.
  (What \<open>crawl_site\<close> and \<open>calculate_scores\<close> print on the way is not part of it.)
  The environment variable, the report renderers, the file system and the call of the
  text-generation reporter are parameters. \<open>call_generate_report\<close> is the call
  \<open>generate_report_with_openai(results, pages_html_data, openai_key)\<close> as the
  interpreter evaluates it; the function in openai_reporter.py takes two parameters, so
  with that module the call raises \<open>TypeError\<close>. \<open>write_error\<close> gives the exception
  that opening a path for writing raises, if it raises. \<open>truthy\<close> is Python's test of a
  value that is a string or \<open>None\<close>.
\<close>

record openai_result =
  report_success :: bool
  report_error :: string
  report_text :: string

record cli_env =
  getenv_openai_key :: "string option"
  call_generate_report :: "site_result \<Rightarrow> pydict list \<Rightarrow> string option \<Rightarrow> exn + openai_result"
  generate_unified_report :: "site_result \<Rightarrow> openai_result option \<Rightarrow> string"
  json_dumps :: "site_result \<Rightarrow> openai_result option \<Rightarrow> string"
  write_error :: "string \<Rightarrow> exn option"

datatype cli_output = Echo string | SaveReport string string | WriteJson string string

datatype report_format = Report | Json

definition truthy :: "string option \<Rightarrow> bool" where
  "truthy v = (case v of None \<Rightarrow> False | Some s \<Rightarrow> s \<noteq> [])"

text \<open>
  \<open>crawl_site\<close> as \<open>audit\<close> calls it. The first statement of the crawl loop,
  \<open>urldefrag(url)\<close>, stands outside the \<open>try\<close> statement. \<open>urldefrag\<close> parses a URL
  only when it holds a \<open>#\<close>, and the URLs that the crawler enqueues hold none, so the
  one call that can raise is the first, on the seed; then \<open>crawl_site\<close> raises.
\<close>

definition urldefrag_error :: "world \<Rightarrow> string \<Rightarrow> exn option" where
  "urldefrag_error w u = (if CHR ''#'' \<in> set u then urlparse_error w u else None)"

definition crawl_site_call :: "world \<Rightarrow> string \<Rightarrow> int \<Rightarrow> exn + pydict list" where
  "crawl_site_call w start_url max_depth =
     (case urldefrag_error w (normalize_start start_url) of
        Some e \<Rightarrow> Inl e
      | None \<Rightarrow> Inr (crawl_site w start_url max_depth))"

fun pages_html_data :: "pydict list \<Rightarrow> exn + pydict list" where
  "pages_html_data [] = Inr []"
| "pages_html_data (page # rest) =
     (case map_of page ''html'' of
        None \<Rightarrow> pages_html_data rest
      | Some html \<Rightarrow>
          bindE (getitem page ''url'') (\<lambda>u.
          bindE (pages_html_data rest) (\<lambda>more_pages.
            Inr ([(''url'', u), (''html'', html)] # more_pages))))"

definition write_report ::
    "cli_env \<Rightarrow> cli_output list \<Rightarrow> site_result \<Rightarrow> openai_result option \<Rightarrow> string option \<Rightarrow> report_format
     \<Rightarrow> cli_output list \<times> (exn + unit)" where
  "write_report env out results openai_res output_path fmt =
     (case fmt of
        Report \<Rightarrow>
          let unified_report = generate_unified_report env results openai_res in
          if truthy output_path
          then (case write_error env (the output_path) of
                  Some e \<Rightarrow> (out, Inl e)
                | None \<Rightarrow>
                    (out @ [SaveReport (the output_path) unified_report,
                            Echo (''Report saved to '' @ the output_path)], Inr ()))
          else (out @ [Echo unified_report], Inr ())
      | Json \<Rightarrow>
          if truthy output_path
          then (case write_error env (the output_path) of
                  Some e \<Rightarrow> (out, Inl e)
                | None \<Rightarrow>
                    (out @ [WriteJson (the output_path) (json_dumps env results openai_res),
                            Echo (''JSON report saved to '' @ the output_path)], Inr ()))
          else (out @ [Echo (json_dumps env results openai_res)], Inr ()))"

definition key_required_message :: string where
  "key_required_message =
     ''Error: OpenAI API key required. Set OPENAI_API_KEY environment variable or use --openai-key option.''"

definition auditing_message :: "string \<Rightarrow> int \<Rightarrow> string" where
  "auditing_message u depth = ''Auditing '' @ u @ '' with depth '' @ str_int depth @ ''...''"

definition audit ::
    "world \<Rightarrow> cli_env \<Rightarrow> string \<Rightarrow> int \<Rightarrow> string option \<Rightarrow> bool \<Rightarrow> string option \<Rightarrow> report_format
     \<Rightarrow> cli_output list \<times> (exn + unit)" where
  "audit w env u depth output_path openai_report openai_key fmt =
     (let out0 = [Echo (auditing_message u depth)] in
      case crawl_site_call w u depth of
        Inl e \<Rightarrow> (out0, Inl e)
      | Inr crawled \<Rightarrow>
         (case calculate_scores w crawled of
           Inl e \<Rightarrow> (out0, Inl e)
         | Inr results \<Rightarrow>
             if openai_report
             then
               if \<not> truthy openai_key \<and> \<not> truthy (getenv_openai_key env)
               then (out0 @ [Echo key_required_message], Inr ())
               else
                 let out1 = out0 @ [Echo ''Generating polished report with OpenAI...''] in
                 (case bindE (pages_html_data crawled)
                         (\<lambda>html_data. call_generate_report env results html_data openai_key) of
                    Inl e \<Rightarrow> (out1, Inl e)
                  | Inr res \<Rightarrow>
                      if \<not> report_success res
                      then write_report env
                             (out1 @ [Echo (''Failed to generate OpenAI report: '' @ report_error res)])
                             results None output_path fmt
                      else write_report env out1 results (Some res) output_path fmt)
             else write_report env out0 results None output_path fmt))"

definition ex_cli :: cli_env where
  "ex_cli = \<lparr>getenv_openai_key = None,
             call_generate_report =
               (\<lambda>results html_data key. Inl (TypeError ''takes 2 positional arguments but 3 were given'')),
             generate_unified_report =
               (\<lambda>results res. ''LLM READINESS AUDIT REPORT: Overall Score: ''
                                @ str_int (site_score results) @ ''/100''),
             json_dumps = (\<lambda>results res. ''{site_score: '' @ str_int (site_score results) @ ''}''),
             write_error = (\<lambda>path. None)\<rparr>"

text \<open>
  C9, as the program behaves. With the flag \<open>--openai-report\<close> and no key, neither as
  an option nor in the environment, \<open>audit\<close> crawls and scores the site, prints the
  error and returns: its whole output is the line that announces the audit and the
  error line, and no report is printed or written, in either format and with or without
  an output path. (When the crawl or the scoring raises, the audit ends with that
  exception after the first line, without a report as well.)
\<close>

theorem audit_without_key_stops:
  "\<not> truthy openai_key \<and> \<not> truthy (getenv_openai_key env) \<longrightarrow>
      audit w env u depth output_path True openai_key fmt =
        (case crawl_site_call w u depth of
           Inl e \<Rightarrow> ([Echo (auditing_message u depth)], Inl e)
         | Inr crawled \<Rightarrow>
             (case calculate_scores w crawled of
                Inl e \<Rightarrow> ([Echo (auditing_message u depth)], Inl e)
              | Inr results \<Rightarrow>
                  ([Echo (auditing_message u depth), Echo key_required_message], Inr ())))"
  by (auto simp: audit_def Let_def split: sum.splits)

lemma ex_audit_scores:
  "\<exists>results. calculate_scores ex_world (crawl_site ex_world ''example.com'' 1) = Inr results
      \<and> site_score results = 78"
proof -
  have p: "crawl_site ex_world ''example.com'' 1 = [ex_home, ex_page]"
    by (simp add: ex_crawl_pages ex_home_def ex_page_def)
  from ex_site_scores show ?thesis
    unfolding p by (cases "calculate_scores ex_world [ex_home, ex_page]") auto
qed

lemma ex_crawl_call:
  "crawl_site_call ex_world u depth = Inr (crawl_site ex_world u depth)"
  by (simp add: crawl_site_call_def urldefrag_error_def ex_world_def)

lemma ex_auditing_message:
  "auditing_message ''example.com'' 1 = ''Auditing example.com with depth 1...''"
  by code_simp

theorem audit_without_key_stops_witness:
  "audit ex_world ex_cli ''example.com'' 1 None True None Report =
     ([Echo ''Auditing example.com with depth 1...'', Echo key_required_message], Inr ())"
proof -
  from ex_audit_scores obtain results where
    r: "calculate_scores ex_world (crawl_site ex_world ''example.com'' 1) = Inr results"
    by blast
  have k: "\<not> truthy None" "getenv_openai_key ex_cli = None"
    by (simp_all add: truthy_def ex_cli_def)
  note t = audit_without_key_stops [where w = ex_world and env = ex_cli and u = "''example.com''"
      and depth = 1 and output_path = None and openai_key = None and fmt = Report]
  from t r k show ?thesis by (simp add: ex_auditing_message ex_crawl_call)
qed

text \<open>
  The claim as the spec states it fails: with the flag and without a key the example
  audit ends after the error line, and no report follows, whether the report was to be
  printed or written to a file.
\<close>

theorem audit_without_key_counterexample:
  "audit ex_world ex_cli ''example.com'' 1 None True None Report =
     ([Echo ''Auditing example.com with depth 1...'', Echo key_required_message], Inr ())
   \<and> audit ex_world ex_cli ''example.com'' 1 (Some ''report.txt'') True (Some []) Json =
     ([Echo ''Auditing example.com with depth 1...'', Echo key_required_message], Inr ())"
proof -
  from ex_audit_scores obtain results where
    r: "calculate_scores ex_world (crawl_site ex_world ''example.com'' 1) = Inr results"
    by blast
  then show ?thesis
    by (simp add: audit_def Let_def truthy_def ex_cli_def ex_auditing_message ex_crawl_call)
qed


end
